theory Spec2Isabelle
  imports Main "HOL-Library.Multiset"
begin

section \<open>The Python runtime the two scripts run on\<close>

text \<open>
  Both scripts reach the outside world only through \<^verbatim>\<open>pathlib\<close>, \<^verbatim>\<open>open\<close> and
  \<^verbatim>\<open>ast.parse\<close>. None of that is code of the repository, so it is an input of the
  model: a record of the answers the runtime gives. \<open>'p\<close> is the type of path
  objects. A call that can raise answers with a sum: \<^verbatim>\<open>is_file\<close> and \<^verbatim>\<open>is_dir\<close>
  return \<^verbatim>\<open>False\<close> for a path that does not exist, and raise \<^verbatim>\<open>OSError\<close> for the
  errors pathlib does not swallow (a name too long, permission denied); the
  enumeration of \<^verbatim>\<open>rglob\<close> either completes with the list of the paths it yields, in
  its order, or raises on the way. \<^verbatim>\<open>rglob\<close> yields every path whose name matches,
  whether it is a file or a directory.
\<close>

datatype exception = SyntaxError | OSError | OtherError string

text \<open>
  The syntax tree as the test generator sees it. \<open>FunctionDef\<close> is the class
  \<^verbatim>\<open>ast.FunctionDef\<close> with the three attributes the code reads: \<open>name\<close>,
  \<open>args\<close> (the \<^verbatim>\<open>arg\<close> strings of \<^verbatim>\<open>args.args\<close>, the positional parameters) and
  \<open>lineno\<close>. \<open>Node\<close> is a node of any other class (\<^verbatim>\<open>Module\<close>, \<^verbatim>\<open>ClassDef\<close>,
  \<^verbatim>\<open>AsyncFunctionDef\<close>, \<^verbatim>\<open>Lambda\<close>, statements, expressions). \<open>children\<close> is what
  \<^verbatim>\<open>ast.iter_child_nodes\<close> yields, in order.
\<close>

datatype node =
    FunctionDef (name: string) (args: "string list") (lineno: int) (children: "node list")
  | Node (children: "node list")

record 'p world =
  Path :: "string \<Rightarrow> 'p"
  path_str :: "'p \<Rightarrow> string"
  path_name :: "'p \<Rightarrow> string"
  is_file :: "'p \<Rightarrow> exception + bool"
  is_dir :: "'p \<Rightarrow> exception + bool"
  rglob :: "'p \<Rightarrow> string \<Rightarrow> exception + 'p list"
  read_text :: "'p \<Rightarrow> exception + string"
  ast_parse :: "string \<Rightarrow> exception + node"

text \<open>
  How a run ends: \<^verbatim>\<open>sys.exit(n)\<close> and a normal return of \<^verbatim>\<open>main\<close> (status 0) are
  \<open>Exit\<close>; an exception nobody catches is \<open>Uncaught\<close>.
\<close>

datatype outcome = Exit int | Uncaught exception

section \<open>analyzer.py\<close>

record AnalysisRecord =
  "file" :: string
  lines_of_code :: int
  cyclomatic_complexity :: int
  issues :: "string list"

definition analyze_file :: "string \<Rightarrow> AnalysisRecord" where
  "analyze_file filepath =
     \<lparr>file = filepath, lines_of_code = 0, cyclomatic_complexity = 0, issues = []\<rparr>"

text \<open>
  What \<^verbatim>\<open>print\<close> writes to standard output: a line of text, or the
  \<^verbatim>\<open>json.dumps(results, indent=2)\<close> serialisation of a list of records (kept as the
  list it serialises).
\<close>

datatype printed = Line string | JsonDump "AnalysisRecord list"

text \<open>The loop \<^verbatim>\<open>for file in target.rglob("*.py"): results.append(...)\<close>.\<close>

fun for_file :: "'p world \<Rightarrow> AnalysisRecord list \<Rightarrow> 'p list \<Rightarrow> AnalysisRecord list" where
  "for_file w results [] = results"
| "for_file w results (file' # rest) =
     for_file w (results @ [analyze_file (path_str w file')]) rest"

text \<open>
  \<^verbatim>\<open>main\<close> of analyzer.py. Nothing is caught, so an exception out of \<^verbatim>\<open>is_file\<close>,
  \<^verbatim>\<open>is_dir\<close> or the enumeration ends the run before \<^verbatim>\<open>print\<close> is reached.
\<close>

definition analyzer_main :: "'p world \<Rightarrow> string list \<Rightarrow> printed list \<times> outcome" where
  "analyzer_main w argv =
     (if length argv < 2 then
        ([Line ''Usage: analyzer.py <file_or_directory>''], Exit 1)
      else
        let target = Path w (argv ! 1);
            results = []
        in (case is_file w target of
              Inl e \<Rightarrow> ([], Uncaught e)
            | Inr file_answer \<Rightarrow>
                if file_answer then
                  ([JsonDump (results @ [analyze_file (path_str w target)])], Exit 0)
                else
                  (case is_dir w target of
                     Inl e \<Rightarrow> ([], Uncaught e)
                   | Inr dir_answer \<Rightarrow>
                       if dir_answer then
                         (case rglob w target ''*.py'' of
                            Inl e \<Rightarrow> ([], Uncaught e)
                          | Inr files \<Rightarrow> ([JsonDump (for_file w results files)], Exit 0))
                       else ([JsonDump results], Exit 0))))"

section \<open>test-generator.py\<close>

text \<open>
  \<^verbatim>\<open>ast.walk\<close> of the standard library: a queue that starts with the root; the
  front node is taken off, its children are put at the back, and the node is
  yielded. So the nodes come breadth-first.
\<close>

function walk_todo :: "node list \<Rightarrow> node list" where
  "walk_todo [] = []"
| "walk_todo (n # todo) = n # walk_todo (todo @ children n)"
  by pat_completeness auto
termination
proof (relation "measure (\<lambda>todo. sum_list (map size todo))")
  show "wf (measure (\<lambda>todo. sum_list (map size todo)))" by simp
next
  fix n :: node and todo :: "node list"
  have "sum_list (map size (children n)) < size n"
    by (cases n) (simp_all add: size_list_conv_sum_list)
  then show "(todo @ children n, n # todo) \<in> measure (\<lambda>todo. sum_list (map size todo))"
    by simp
qed

definition walk :: "node \<Rightarrow> node list" where
  "walk tree = walk_todo [tree]"

fun isinstance_FunctionDef :: "node \<Rightarrow> bool" where
  "isinstance_FunctionDef (FunctionDef _ _ _ _) = True"
| "isinstance_FunctionDef (Node _) = False"

text \<open>\<^verbatim>\<open>str.startswith\<close> and \<^verbatim>\<open>dict.get\<close> with a default, as the code uses them.\<close>

fun startswith :: "string \<Rightarrow> string \<Rightarrow> bool" where
  "startswith s [] = True"
| "startswith [] (c # cs) = False"
| "startswith (d # ds) (c # cs) = (d = c \<and> startswith ds cs)"

definition dict_get :: "('k \<rightharpoonup> 'v) \<Rightarrow> 'k \<Rightarrow> 'v \<Rightarrow> 'v" where
  "dict_get d k default' = (case d k of None \<Rightarrow> default' | Some v \<Rightarrow> v)"

text \<open>
  The truth value of \<^verbatim>\<open>d.get(k)\<close> for a dictionary of booleans: a missing key gives
  \<^verbatim>\<open>None\<close>, which counts as false.
\<close>

definition truthy :: "bool option \<Rightarrow> bool" where
  "truthy v = (case v of None \<Rightarrow> False | Some b \<Rightarrow> b)"

text \<open>
  The configuration is a dictionary of sections, each a dictionary of boolean
  flags. The generator object holds it in its only attribute. Every method takes
  the object and returns it with its result, so that what a method does to the
  object is part of the model.
\<close>

type_synonym config = "string \<rightharpoonup> (string \<rightharpoonup> bool)"

record TestGenerator =
  config :: config

definition TestGenerator_init :: "config \<Rightarrow> TestGenerator" where
  "TestGenerator_init config' = \<lparr>config = config'\<rparr>"

record TestCase =
  name :: string
  description :: string

record FunctionMetadata =
  name :: string
  args :: "string list"
  line_number :: int
  test_cases :: "TestCase list"

definition generate_test_cases :: "TestGenerator \<Rightarrow> node \<Rightarrow> TestCase list \<times> TestGenerator" where
  "generate_test_cases self func_node =
     (let test_cases = [];
          test_cases = test_cases @
            [\<lparr>TestCase.name = ''test_'' @ node.name func_node @ ''_basic'',
              description = ''Basic functionality test''\<rparr>];
          test_cases =
            (if truthy ((dict_get (config self) ''generation'' Map.empty) ''include_edge_cases'')
             then test_cases @
               [\<lparr>TestCase.name = ''test_'' @ node.name func_node @ ''_edge_cases'',
                 description = ''Edge case handling''\<rparr>]
             else test_cases);
          test_cases =
            (if truthy ((dict_get (config self) ''generation'' Map.empty) ''include_error_cases'')
             then test_cases @
               [\<lparr>TestCase.name = ''test_'' @ node.name func_node @ ''_error_handling'',
                 description = ''Error handling test''\<rparr>]
             else test_cases)
      in (test_cases, self))"

definition analyze_function :: "TestGenerator \<Rightarrow> node \<Rightarrow> FunctionMetadata \<times> TestGenerator" where
  "analyze_function self func_node =
     (let (cases, self) = generate_test_cases self func_node
      in (\<lparr>FunctionMetadata.name = node.name func_node,
           args = node.args func_node,
           line_number = lineno func_node,
           test_cases = cases\<rparr>, self))"

text \<open>The inner loop \<^verbatim>\<open>for test_case in metadata["test_cases"]\<close>.\<close>

fun for_test_case :: "string \<Rightarrow> TestCase list \<Rightarrow> string" where
  "for_test_case test_content [] = test_content"
| "for_test_case test_content (test_case # rest) =
     (let test_content = test_content @ ''def '' @ TestCase.name test_case @ ''():\<newline>'';
          test_content = test_content @ ''    \"\"\"'' @ description test_case @ ''\"\"\"\<newline>'';
          test_content = test_content @ ''    # TODO: Implement test\<newline>'';
          test_content = test_content @ ''    pass\<newline>\<newline>''
      in for_test_case test_content rest)"

text \<open>The outer loop \<^verbatim>\<open>for func in functions\<close>.\<close>

fun for_func :: "TestGenerator \<Rightarrow> string \<Rightarrow> node list \<Rightarrow> string \<times> TestGenerator" where
  "for_func self test_content [] = (test_content, self)"
| "for_func self test_content (func # rest) =
     (if \<not> startswith (node.name func) ''_'' then
        let (metadata, self) = analyze_function self func
        in for_func self (for_test_case test_content (test_cases metadata)) rest
      else for_func self test_content rest)"

definition generate_test_file ::
  "'p world \<Rightarrow> TestGenerator \<Rightarrow> 'p \<Rightarrow> (exception + string) \<times> TestGenerator" where
  "generate_test_file w self source_path =
     (case read_text w source_path of
        Inl e \<Rightarrow> (Inl e, self)
      | Inr source \<Rightarrow>
          (case ast_parse w source of
             Inl e \<Rightarrow> (Inl e, self)
           | Inr tree \<Rightarrow>
               let functions = filter isinstance_FunctionDef (walk tree);
                   test_content = ''\"\"\"Tests for '' @ path_name w source_path @ ''\"\"\"\<newline>\<newline>'';
                   test_content = test_content @ ''import pytest\<newline>\<newline>'';
                   (test_content, self) = for_func self test_content functions
               in (Inr test_content, self)))"

text \<open>
  \<^verbatim>\<open>main\<close> of test-generator.py. Standard output is the list of strings printed.
  An exception out of \<open>generate_test_file\<close> is not caught, so \<^verbatim>\<open>print\<close> is not
  reached.
\<close>

definition test_generator_main :: "'p world \<Rightarrow> string list \<Rightarrow> string list \<times> outcome" where
  "test_generator_main w argv =
     (if length argv < 2 then
        ([''Usage: test-generator.py <source_file>''], Exit 1)
      else
        let source_path = Path w (argv ! 1);
            config' = [''generation'' \<mapsto>
                        [''include_edge_cases'' \<mapsto> True, ''include_error_cases'' \<mapsto> True]];
            generator = TestGenerator_init config';
            (result, generator) = generate_test_file w generator source_path
        in (case result of
              Inl e \<Rightarrow> ([], Uncaught e)
            | Inr test_content \<Rightarrow> ([test_content], Exit 0)))"

section \<open>What the properties are stated with\<close>

text \<open>
  The nodes of a tree, each once, by recursion on the tree: what a source file
  "contains", said without the queue of \<open>walk\<close>.
\<close>

fun nodes_of :: "node \<Rightarrow> node list" where
  "nodes_of (FunctionDef nm a l cs) = FunctionDef nm a l cs # concat (map nodes_of cs)"
| "nodes_of (Node cs) = Node cs # concat (map nodes_of cs)"

text \<open>
  The header of a generated document: the docstring naming the source file, then
  the import of the assertion framework.
\<close>

definition document_header :: "string \<Rightarrow> string" where
  "document_header source_name =
     ''\"\"\"Tests for '' @ source_name @ ''\"\"\"\<newline>\<newline>'' @ ''import pytest\<newline>\<newline>''"

text \<open>One empty test function, as text.\<close>

definition test_stub :: "TestCase \<Rightarrow> string" where
  "test_stub t =
     ''def '' @ TestCase.name t @ ''():\<newline>'' @
     ''    \"\"\"'' @ description t @ ''\"\"\"\<newline>'' @
     ''    # TODO: Implement test\<newline>'' @
     ''    pass\<newline>\<newline>''"

text \<open>
  The derivation policy in the specification's words: always the basic case, then
  the edge case when the first flag is set, then the error case when the second
  flag is set.
\<close>

definition derive_test_cases :: "bool \<Rightarrow> bool \<Rightarrow> string \<Rightarrow> TestCase list" where
  "derive_test_cases include_edge_cases include_error_cases function =
     [\<lparr>TestCase.name = ''test_'' @ function @ ''_basic'',
       description = ''Basic functionality test''\<rparr>] @
     (if include_edge_cases
      then [\<lparr>TestCase.name = ''test_'' @ function @ ''_edge_cases'',
             description = ''Edge case handling''\<rparr>] else []) @
     (if include_error_cases
      then [\<lparr>TestCase.name = ''test_'' @ function @ ''_error_handling'',
             description = ''Error handling test''\<rparr>] else [])"

text \<open>
  A flag of the \<^verbatim>\<open>generation\<close> section is set when the section is there, the key is
  there and its value is true.
\<close>

definition flag :: "TestGenerator \<Rightarrow> string \<Rightarrow> bool" where
  "flag self key =
     (case config self ''generation'' of None \<Rightarrow> False
      | Some section \<Rightarrow> (case section key of None \<Rightarrow> False | Some b \<Rightarrow> b))"

text \<open>The function definitions of a file whose names do not begin with an underscore.\<close>

definition public_function_defs :: "node \<Rightarrow> node list" where
  "public_function_defs tree =
     filter (\<lambda>n. isinstance_FunctionDef n \<and> \<not> startswith (node.name n) ''_'') (nodes_of tree)"

section \<open>An example runtime\<close>

text \<open>
  A source file with two public functions (one of them a method) and a private one,
  and its tree as \<^verbatim>\<open>ast.parse\<close> builds it: the children of a function definition
  are its \<^verbatim>\<open>arguments\<close> node and the statements of its body. The filesystem has a
  directory \<^verbatim>\<open>pkg\<close> with two Python files, and a directory \<^verbatim>\<open>mixed\<close> that holds a file
  \<^verbatim>\<open>a.py\<close> and a directory named \<^verbatim>\<open>d.py\<close> with a file \<^verbatim>\<open>b.py\<close> in it. A name longer
  than 255 characters makes \<^verbatim>\<open>stat\<close> fail with "name too long".
\<close>

definition shapes_source :: string where
  "shapes_source =
     ''def area(r): pass\<newline>def _check(r): pass\<newline>class Shape:\<newline>    def scale(self, k): pass\<newline>''"

definition shapes_tree :: node where
  "shapes_tree =
     Node [FunctionDef ''area'' [''r''] 1 [Node [Node []], Node []],
           FunctionDef ''_check'' [''r''] 2 [Node [Node []], Node []],
           Node [FunctionDef ''scale'' [''self'', ''k''] 4 [Node [Node [], Node []], Node []]]]"

definition example_config :: config where
  "example_config =
     [''generation'' \<mapsto> [''include_edge_cases'' \<mapsto> True, ''include_error_cases'' \<mapsto> True]]"

definition example_world :: "string world" where
  "example_world =
     \<lparr>Path = (\<lambda>s. s),
      path_str = (\<lambda>p. p),
      path_name = (\<lambda>p. p),
      is_file = (\<lambda>p. if 255 < length p then Inl OSError
                     else Inr (p \<in> set [''shapes.py'', ''helpers.py'', ''empty.py'', ''broken.py'',
                                         ''a\"\"\"b.py'', ''pkg/a.py'', ''pkg/sub/b.py'',
                                         ''mixed/a.py'', ''mixed/d.py/b.py''])),
      is_dir = (\<lambda>p. if 255 < length p then Inl OSError
                    else Inr (p \<in> set [''pkg'', ''pkg/sub'', ''mixed'', ''mixed/d.py''])),
      rglob = (\<lambda>p pat. if p = ''pkg'' \<and> pat = ''*.py''
                         then Inr [''pkg/a.py'', ''pkg/sub/b.py'']
                       else if p = ''mixed'' \<and> pat = ''*.py''
                         then Inr [''mixed/a.py'', ''mixed/d.py'', ''mixed/d.py/b.py'']
                       else Inr []),
      read_text = (\<lambda>p. case map_of [(''shapes.py'', shapes_source),
                                      (''helpers.py'', ''def _helper(): pass''),
                                      (''empty.py'', []),
                                      (''broken.py'', ''def (:''),
                                      (''a\"\"\"b.py'', [])] p of
                          None \<Rightarrow> Inl OSError | Some text \<Rightarrow> Inr text),
      ast_parse = (\<lambda>s. case map_of [(shapes_source, shapes_tree),
                                      (''def _helper(): pass'',
                                         Node [FunctionDef ''_helper'' [] 1 [Node [], Node []]]),
                                      ([], Node [])] s of
                          None \<Rightarrow> Inl SyntaxError | Some tree \<Rightarrow> Inr tree)\<rparr>"

section \<open>Properties of analyzer.py\<close>


text \<open>
  Claim C4. Whatever the path, \<open>analyze_file\<close> returns a record whose \<open>file\<close> is
  the path it was given, whose \<open>lines_of_code\<close> and \<open>cyclomatic_complexity\<close> are 0
  and whose \<open>issues\<close> are empty. The function never opens the file, so the file's
  contents cannot matter.
\<close>

theorem analyze_file_placeholder:
  "file (analyze_file filepath) = filepath \<and>
   lines_of_code (analyze_file filepath) = 0 \<and>
   cyclomatic_complexity (analyze_file filepath) = 0 \<and>
   issues (analyze_file filepath) = []"
  by (simp add: analyze_file_def)




text \<open>
  Claim C5, as the code has it. Given a path argument for which \<^verbatim>\<open>is_file\<close> and
  \<^verbatim>\<open>is_dir\<close> both answer false, as they do for a path that does not exist, the
  analyzer prints the empty list of records and ends with status 0.
\<close>

theorem analyzer_missing_path_empty:
  assumes "2 \<le> length argv"
    and "is_file w (Path w (argv ! 1)) = Inr False"
    and "is_dir w (Path w (argv ! 1)) = Inr False"
  shows "analyzer_main w argv = ([JsonDump []], Exit 0)"
  using assms by (simp add: analyzer_main_def)

theorem analyzer_missing_path_empty_witness:
  "2 \<le> length [''analyzer.py'', ''nowhere''] \<and>
   is_file example_world (Path example_world ([''analyzer.py'', ''nowhere''] ! 1)) = Inr False \<and>
   is_dir example_world (Path example_world ([''analyzer.py'', ''nowhere''] ! 1)) = Inr False \<and>
   analyzer_main example_world [''analyzer.py'', ''nowhere''] = ([JsonDump []], Exit 0)"
proof -
  have a: "2 \<le> length [''analyzer.py'', ''nowhere'']" by simp
  have f: "is_file example_world (Path example_world ([''analyzer.py'', ''nowhere''] ! 1)) = Inr False"
    by (simp add: example_world_def)
  have d: "is_dir example_world (Path example_world ([''analyzer.py'', ''nowhere''] ! 1)) = Inr False"
    by (simp add: example_world_def)
  show ?thesis using a f d analyzer_missing_path_empty [OF a f d] by simp
qed

text \<open>
  The claim as written speaks of every path that names no file and no directory.
  A name of 256 characters names neither, yet \<^verbatim>\<open>is_file\<close> raises on it instead of
  answering false; the exception is not caught, so the run ends with it and prints
  nothing.
\<close>

theorem analyzer_missing_path_raises:
  "is_file example_world (Path example_world (replicate 256 CHR ''a'')) = Inl OSError \<and>
   analyzer_main example_world [''analyzer.py'', replicate 256 CHR ''a''] =
     ([], Uncaught OSError)"
  by (simp add: analyzer_main_def example_world_def)

section \<open>Properties of test-generator.py\<close>

lemma walk_todo_mset:
  "mset (walk_todo todo) = mset (concat (map nodes_of todo))"
proof (induction todo rule: walk_todo.induct)
  case 1
  show ?case by simp
next
  case (2 n todo)
  have "mset (walk_todo (n # todo)) = {#n#} + mset (walk_todo (todo @ children n))"
    by simp
  also have "\<dots> = {#n#} + mset (concat (map nodes_of (todo @ children n)))"
    using 2 by simp
  also have "\<dots> = mset (nodes_of n) + mset (concat (map nodes_of todo))"
  proof -
    have "mset (nodes_of n) = {#n#} + mset (concat (map nodes_of (children n)))"
      by (cases n) simp_all
    then show ?thesis by simp
  qed
  finally show ?case by simp
qed

lemma walk_mset: "mset (walk tree) = mset (nodes_of tree)"
  using walk_todo_mset [of "[tree]"] by (simp add: walk_def)

lemma walk_count: "length (filter P (walk tree)) = length (filter P (nodes_of tree))"
proof -
  have "mset (filter P (walk tree)) = mset (filter P (nodes_of tree))"
    using walk_mset [of tree] by (simp only: mset_filter)
  then show ?thesis by (metis size_mset)
qed

lemma walk_set: "set (walk tree) = set (nodes_of tree)"
  using walk_mset [of tree] by (metis set_mset_mset)

lemma for_test_case_concat:
  "for_test_case test_content cases = test_content @ concat (map test_stub cases)"
  by (induction cases arbitrary: test_content) (simp_all add: test_stub_def)

lemma generate_test_cases_self: "snd (generate_test_cases self f) = self"
  by (simp add: generate_test_cases_def Let_def)

lemma analyze_function_self: "snd (analyze_function self f) = self"
  by (simp add: analyze_function_def generate_test_cases_def Let_def)

lemma analyze_function_cases:
  "test_cases (fst (analyze_function self f)) = fst (generate_test_cases self f)"
  by (simp add: analyze_function_def split_def Let_def)

lemma for_func_concat:
  "for_func self test_content funcs =
     (test_content @ concat (map test_stub (concat (map (\<lambda>f. fst (generate_test_cases self f))
         (filter (\<lambda>f. \<not> startswith (node.name f) ''_'') funcs)))), self)"
proof (induction funcs arbitrary: test_content)
  case Nil
  show ?case by simp
next
  case (Cons f funcs)
  obtain m s where a: "analyze_function self f = (m, s)" by (cases "analyze_function self f")
  have s: "s = self" using analyze_function_self [of self f] a by simp
  have m: "test_cases m = fst (generate_test_cases self f)"
    using analyze_function_cases [of self f] a by simp
  show ?case by (simp add: a s m Cons for_test_case_concat)
qed

lemma generate_test_cases_derive:
  "fst (generate_test_cases self f) =
     derive_test_cases (flag self ''include_edge_cases'') (flag self ''include_error_cases'') (node.name f)"
  by (simp add: generate_test_cases_def derive_test_cases_def flag_def dict_get_def truthy_def
      Let_def split: option.splits)

lemma generate_test_file_document:
  assumes "read_text w source_path = Inr source" and "ast_parse w source = Inr tree"
  shows "generate_test_file w self source_path =
     (Inr (document_header (path_name w source_path) @
           concat (map test_stub (concat (map (\<lambda>f. fst (generate_test_cases self f))
             (filter (\<lambda>f. \<not> startswith (node.name f) ''_'')
                (filter isinstance_FunctionDef (walk tree))))))), self)"
  using assms
  by (simp add: generate_test_file_def for_func_concat document_header_def)

lemma public_count:
  "length (filter (\<lambda>f. \<not> startswith (node.name f) ''_'') (filter isinstance_FunctionDef (walk tree)))
     = length (public_function_defs tree)"
  using walk_count [of "\<lambda>n. isinstance_FunctionDef n \<and> \<not> startswith (node.name n) ''_''" tree]
  by (simp add: public_function_defs_def conj_commute)

lemma length_concat_three:
  "length (concat (map (\<lambda>f. derive_test_cases True True (g f)) fs)) = 3 * length fs"
  by (induction fs) (simp_all add: derive_test_cases_def)

lemma names_three:
  "map TestCase.name (concat (map (\<lambda>f. derive_test_cases True True (g f)) fs)) =
     concat (map (\<lambda>f. [''test_'' @ g f @ ''_basic'', ''test_'' @ g f @ ''_edge_cases'',
                         ''test_'' @ g f @ ''_error_handling'']) fs)"
  by (induction fs) (simp_all add: derive_test_cases_def)

text \<open>
  Claim C1. When the source file is read and parsed, it contains N function
  definitions whose names do not begin with an underscore, and both flags of the
  \<^verbatim>\<open>generation\<close> section are true, the generated document is the header followed by
  the text of these test stubs and nothing else: for each public function f, in
  discovery order, the three cases of the derivation policy with both flags set,
  named test_f_basic, test_f_edge_cases and test_f_error_handling. That list has
  exactly 3 * N stubs.
\<close>

theorem three_stubs_per_public_function:
  assumes "read_text w source_path = Inr source"
    and "ast_parse w source = Inr tree"
    and "config self ''generation'' = Some section"
    and "section ''include_edge_cases'' = Some True"
    and "section ''include_error_cases'' = Some True"
  shows "fst (generate_test_file w self source_path) =
       Inr (document_header (path_name w source_path) @
            concat (map test_stub
              (concat (map (\<lambda>f. derive_test_cases True True (node.name f))
                 (filter (\<lambda>f. \<not> startswith (node.name f) ''_'')
                    (filter isinstance_FunctionDef (walk tree))))))) \<and>
     length (concat (map (\<lambda>f. derive_test_cases True True (node.name f))
                 (filter (\<lambda>f. \<not> startswith (node.name f) ''_'')
                    (filter isinstance_FunctionDef (walk tree))))) =
       3 * length (public_function_defs tree) \<and>
     map TestCase.name
       (concat (map (\<lambda>f. derive_test_cases True True (node.name f))
                 (filter (\<lambda>f. \<not> startswith (node.name f) ''_'')
                    (filter isinstance_FunctionDef (walk tree))))) =
       concat (map (\<lambda>f. [''test_'' @ node.name f @ ''_basic'',
                           ''test_'' @ node.name f @ ''_edge_cases'',
                           ''test_'' @ node.name f @ ''_error_handling''])
         (filter (\<lambda>f. \<not> startswith (node.name f) ''_'')
            (filter isinstance_FunctionDef (walk tree))))"
proof -
  let ?publics = "filter (\<lambda>f. \<not> startswith (node.name f) ''_'')
                    (filter isinstance_FunctionDef (walk tree))"
  let ?stubs = "concat (map (\<lambda>f. derive_test_cases True True (node.name f)) ?publics)"
  have e: "flag self ''include_edge_cases''" and r: "flag self ''include_error_cases''"
    using assms(3-5) by (simp_all add: flag_def)
  have "fst (generate_test_file w self source_path) =
          Inr (document_header (path_name w source_path) @ concat (map test_stub ?stubs))"
    by (simp add: generate_test_file_document [OF assms(1,2)] generate_test_cases_derive e r)
  moreover have "length ?stubs = 3 * length (public_function_defs tree)"
    by (simp only: length_concat_three public_count)
  moreover note names_three [of node.name ?publics]
  ultimately show ?thesis by blast
qed

lemma example_read: "read_text example_world ''shapes.py'' = Inr shapes_source"
  by (simp add: example_world_def)

lemma example_parse: "ast_parse example_world shapes_source = Inr shapes_tree"
  by (simp add: example_world_def)

lemma shapes_walk:
  "filter isinstance_FunctionDef (walk shapes_tree) =
     [FunctionDef ''area'' [''r''] 1 [Node [Node []], Node []],
      FunctionDef ''_check'' [''r''] 2 [Node [Node []], Node []],
      FunctionDef ''scale'' [''self'', ''k''] 4 [Node [Node [], Node []], Node []]]"
  by (simp add: walk_def shapes_tree_def)

lemma shapes_public: "length (public_function_defs shapes_tree) = 2"
  by (simp add: public_function_defs_def shapes_tree_def)

theorem three_stubs_per_public_function_witness:
  "read_text example_world ''shapes.py'' = Inr shapes_source \<and>
   ast_parse example_world shapes_source = Inr shapes_tree \<and>
   config (TestGenerator_init example_config) ''generation'' =
     Some [''include_edge_cases'' \<mapsto> True, ''include_error_cases'' \<mapsto> True] \<and>
   fst (generate_test_file example_world (TestGenerator_init example_config) ''shapes.py'') =
     Inr (document_header ''shapes.py'' @
          concat (map test_stub
            (derive_test_cases True True ''area'' @ derive_test_cases True True ''scale''))) \<and>
   length (derive_test_cases True True ''area'' @ derive_test_cases True True ''scale'') = 6 \<and>
   map TestCase.name (derive_test_cases True True ''area'' @ derive_test_cases True True ''scale'') =
     [''test_area_basic'', ''test_area_edge_cases'', ''test_area_error_handling'',
      ''test_scale_basic'', ''test_scale_edge_cases'', ''test_scale_error_handling'']"
proof -
  have c: "config (TestGenerator_init example_config) ''generation'' =
     Some [''include_edge_cases'' \<mapsto> True, ''include_error_cases'' \<mapsto> True]"
    by (simp add: TestGenerator_init_def example_config_def)
  have e: "[''include_edge_cases'' \<mapsto> True, ''include_error_cases'' \<mapsto> True] ''include_edge_cases'' = Some True"
    by simp
  have r: "[''include_edge_cases'' \<mapsto> True, ''include_error_cases'' \<mapsto> True] ''include_error_cases'' = Some True"
    by simp
  have n: "path_name example_world ''shapes.py'' = ''shapes.py''"
    by (simp add: example_world_def)
  show ?thesis
    using three_stubs_per_public_function [OF example_read example_parse c e r]
    by (simp add: example_read example_parse c shapes_walk shapes_public n)
qed

lemma no_public_walk:
  assumes "\<forall>n \<in> set (nodes_of tree). isinstance_FunctionDef n \<longrightarrow> startswith (node.name n) ''_''"
  shows "filter (\<lambda>f. \<not> startswith (node.name f) ''_'') (filter isinstance_FunctionDef (walk tree)) = []"
  using assms by (simp add: filter_empty_conv walk_set)

text \<open>
  Claim C2. When the source file is read and parsed, the generated document is the
  header followed by the stubs of the function definitions whose names do not
  start with an underscore, and of no other: a definition whose name starts with
  an underscore contributes nothing. When every function definition of the file
  has such a name, the document is the header alone, with no test function.
\<close>

theorem private_functions_skipped:
  assumes "read_text w source_path = Inr source"
    and "ast_parse w source = Inr tree"
  shows "fst (generate_test_file w self source_path) =
           Inr (document_header (path_name w source_path) @
                concat (map test_stub (concat (map (\<lambda>f. fst (generate_test_cases self f))
                  (filter (\<lambda>f. \<not> startswith (node.name f) ''_'')
                     (filter isinstance_FunctionDef (walk tree))))))) \<and>
         ((\<forall>n \<in> set (nodes_of tree). isinstance_FunctionDef n \<longrightarrow> startswith (node.name n) ''_'') \<longrightarrow>
            fst (generate_test_file w self source_path) =
              Inr (document_header (path_name w source_path)))"
proof -
  have doc: "fst (generate_test_file w self source_path) =
           Inr (document_header (path_name w source_path) @
                concat (map test_stub (concat (map (\<lambda>f. fst (generate_test_cases self f))
                  (filter (\<lambda>f. \<not> startswith (node.name f) ''_'')
                     (filter isinstance_FunctionDef (walk tree)))))))"
    by (simp add: generate_test_file_document [OF assms])
  show ?thesis
  proof (intro conjI impI)
    show "fst (generate_test_file w self source_path) =
           Inr (document_header (path_name w source_path) @
                concat (map test_stub (concat (map (\<lambda>f. fst (generate_test_cases self f))
                  (filter (\<lambda>f. \<not> startswith (node.name f) ''_'')
                     (filter isinstance_FunctionDef (walk tree)))))))"
      by (rule doc)
  next
    assume "\<forall>n \<in> set (nodes_of tree). isinstance_FunctionDef n \<longrightarrow> startswith (node.name n) ''_''"
    then show "fst (generate_test_file w self source_path) =
              Inr (document_header (path_name w source_path))"
      by (simp only: doc no_public_walk) simp
  qed
qed

lemma helpers_read: "read_text example_world ''helpers.py'' = Inr ''def _helper(): pass''"
  by (simp add: example_world_def)

lemma helpers_parse:
  "ast_parse example_world ''def _helper(): pass'' =
     Inr (Node [FunctionDef ''_helper'' [] 1 [Node [], Node []]])"
  by (simp add: example_world_def shapes_source_def)

theorem private_functions_skipped_witness:
  "read_text example_world ''helpers.py'' = Inr ''def _helper(): pass'' \<and>
   ast_parse example_world ''def _helper(): pass'' =
     Inr (Node [FunctionDef ''_helper'' [] 1 [Node [], Node []]]) \<and>
   fst (generate_test_file example_world (TestGenerator_init example_config) ''helpers.py'') =
     Inr ''\"\"\"Tests for helpers.py\"\"\"\<newline>\<newline>import pytest\<newline>\<newline>''"
proof -
  have p: "\<forall>n \<in> set (nodes_of (Node [FunctionDef ''_helper'' [] 1 [Node [], Node []]])).
      isinstance_FunctionDef n \<longrightarrow> startswith (node.name n) ''_''"
    by simp
  have n: "path_name example_world ''helpers.py'' = ''helpers.py''"
    by (simp add: example_world_def)
  have "fst (generate_test_file example_world (TestGenerator_init example_config) ''helpers.py'') =
          Inr (document_header (path_name example_world ''helpers.py''))"
    using private_functions_skipped [OF helpers_read helpers_parse,
        of "TestGenerator_init example_config"] p
    by blast
  then show ?thesis
    by (simp add: helpers_read helpers_parse n document_header_def)
qed

text \<open>
  Claim C7. When the text of the source file does not parse, \<open>generate_test_file\<close>
  returns the parser's exception, \<open>main\<close> ends with that exception uncaught, and
  nothing has been printed to standard output.
\<close>

theorem parse_failure_aborts:
  assumes "2 \<le> length argv"
    and "read_text w (Path w (argv ! 1)) = Inr source"
    and "ast_parse w source = Inl e"
  shows "fst (generate_test_file w self (Path w (argv ! 1))) = Inl e \<and>
         test_generator_main w argv = ([], Uncaught e)"
  using assms by (simp add: generate_test_file_def test_generator_main_def)

theorem parse_failure_aborts_witness:
  "2 \<le> length [''test-generator.py'', ''broken.py''] \<and>
   read_text example_world (Path example_world ([''test-generator.py'', ''broken.py''] ! 1)) =
     Inr ''def (:'' \<and>
   ast_parse example_world ''def (:'' = Inl SyntaxError \<and>
   fst (generate_test_file example_world (TestGenerator_init example_config)
          (Path example_world ([''test-generator.py'', ''broken.py''] ! 1))) = Inl SyntaxError \<and>
   test_generator_main example_world [''test-generator.py'', ''broken.py''] =
     ([], Uncaught SyntaxError)"
proof -
  have a: "2 \<le> length [''test-generator.py'', ''broken.py'']" by simp
  have r: "read_text example_world (Path example_world ([''test-generator.py'', ''broken.py''] ! 1)) =
     Inr ''def (:''"
    by (simp add: example_world_def)
  have p: "ast_parse example_world ''def (:'' = Inl SyntaxError"
    by (simp add: example_world_def shapes_source_def)
  show ?thesis
    using a r p parse_failure_aborts [OF a r p, of "TestGenerator_init example_config"]
    by simp
qed

text \<open>
  Claim C8. When the source file is read and parsed, the generated document is:
  the docstring naming the source file, the line importing pytest, then the empty
  test functions, function by function in discovery order (public functions only)
  and, within a function, basic first, then edge_cases, then error_handling, the
  last two when their flags are set.
\<close>

theorem document_layout:
  assumes "read_text w source_path = Inr source"
    and "ast_parse w source = Inr tree"
  shows "fst (generate_test_file w self source_path) =
           Inr (''\"\"\"Tests for '' @ path_name w source_path @ ''\"\"\"\<newline>\<newline>'' @
                ''import pytest\<newline>\<newline>'' @
                concat (map test_stub
                  (concat (map (\<lambda>f. derive_test_cases (flag self ''include_edge_cases'')
                                        (flag self ''include_error_cases'') (node.name f))
                     (filter (\<lambda>f. \<not> startswith (node.name f) ''_'')
                        (filter isinstance_FunctionDef (walk tree)))))))"
  by (simp add: generate_test_file_document [OF assms] generate_test_cases_derive
      document_header_def)

theorem document_layout_witness:
  "read_text example_world ''shapes.py'' = Inr shapes_source \<and>
   ast_parse example_world shapes_source = Inr shapes_tree \<and>
   fst (generate_test_file example_world (TestGenerator_init example_config) ''shapes.py'') =
     Inr (''\"\"\"Tests for shapes.py\"\"\"\<newline>\<newline>'' @
          ''import pytest\<newline>\<newline>'' @
          concat (map test_stub
            [\<lparr>TestCase.name = ''test_area_basic'', description = ''Basic functionality test''\<rparr>,
             \<lparr>TestCase.name = ''test_area_edge_cases'', description = ''Edge case handling''\<rparr>,
             \<lparr>TestCase.name = ''test_area_error_handling'', description = ''Error handling test''\<rparr>,
             \<lparr>TestCase.name = ''test_scale_basic'', description = ''Basic functionality test''\<rparr>,
             \<lparr>TestCase.name = ''test_scale_edge_cases'', description = ''Edge case handling''\<rparr>,
             \<lparr>TestCase.name = ''test_scale_error_handling'', description = ''Error handling test''\<rparr>]))"
proof -
  have fl: "flag (TestGenerator_init example_config) ''include_edge_cases''"
    "flag (TestGenerator_init example_config) ''include_error_cases''"
    by (simp_all add: flag_def TestGenerator_init_def example_config_def)
  have n: "path_name example_world ''shapes.py'' = ''shapes.py''"
    by (simp add: example_world_def)
  show ?thesis
    using document_layout [OF example_read example_parse, of "TestGenerator_init example_config"]
    by (simp add: example_read example_parse shapes_walk fl n derive_test_cases_def)
qed

text \<open>
  Claim C9. No method of the generator changes the generator object, so its
  configuration after \<open>generate_test_file\<close> returns (with a document or with an
  exception) is the configuration it had before.
\<close>

theorem config_unchanged:
  "snd (generate_test_cases self func_node) = self \<and>
   snd (analyze_function self func_node) = self \<and>
   snd (generate_test_file w self source_path) = self \<and>
   config (snd (generate_test_file w self source_path)) = config self"
proof -
  have "snd (generate_test_file w self source_path) = self"
    by (simp add: generate_test_file_def for_func_concat split: sum.splits)
  then show ?thesis
    by (simp add: generate_test_cases_self analyze_function_self)
qed

text \<open>
  Claim C10. When the source file is read and parsed, the generated document
  begins with the docstring naming the source file and the import line; when the
  file has no public function definition (an empty file, for one), the document
  is exactly that header.
\<close>

theorem header_always_first:
  assumes "read_text w source_path = Inr source"
    and "ast_parse w source = Inr tree"
  shows "(\<exists>stubs. fst (generate_test_file w self source_path) =
             Inr (document_header (path_name w source_path) @ stubs)) \<and>
         (public_function_defs tree = [] \<longrightarrow>
            fst (generate_test_file w self source_path) =
              Inr (document_header (path_name w source_path)))"
proof (intro conjI impI)
  show "\<exists>stubs. fst (generate_test_file w self source_path) =
             Inr (document_header (path_name w source_path) @ stubs)"
    by (simp add: generate_test_file_document [OF assms])
next
  assume "public_function_defs tree = []"
  then have "filter (\<lambda>f. \<not> startswith (node.name f) ''_'')
               (filter isinstance_FunctionDef (walk tree)) = []"
    using public_count [of tree] by simp
  then show "fst (generate_test_file w self source_path) =
              Inr (document_header (path_name w source_path))"
    by (simp add: generate_test_file_document [OF assms])
qed

lemma empty_read: "read_text example_world ''empty.py'' = Inr []"
  by (simp add: example_world_def)

lemma empty_parse: "ast_parse example_world [] = Inr (Node [])"
  by (simp add: example_world_def shapes_source_def)

theorem header_always_first_witness:
  "read_text example_world ''empty.py'' = Inr [] \<and>
   ast_parse example_world [] = Inr (Node []) \<and>
   public_function_defs (Node []) = [] \<and>
   fst (generate_test_file example_world (TestGenerator_init example_config) ''empty.py'') =
     Inr ''\"\"\"Tests for empty.py\"\"\"\<newline>\<newline>import pytest\<newline>\<newline>''"
proof -
  have p: "public_function_defs (Node []) = []"
    by (simp add: public_function_defs_def)
  have n: "path_name example_world ''empty.py'' = ''empty.py''"
    by (simp add: example_world_def)
  have "fst (generate_test_file example_world (TestGenerator_init example_config) ''empty.py'') =
          Inr (document_header (path_name example_world ''empty.py''))"
    using header_always_first [OF empty_read empty_parse, of "TestGenerator_init example_config"] p
    by blast
  then show ?thesis
    using p by (simp add: empty_read empty_parse n document_header_def)
qed

text \<open>
  Claim C6. The header copies the name of the source file between triple quotes
  as it is. For an empty source file named \<^verbatim>\<open>a"""b.py\<close> the generated document is
  the text below: its docstring ends after \<^verbatim>\<open>a\<close>, and the last triple quote of the
  first line opens a string that is never closed, so the document is not valid
  Python.
\<close>

theorem header_quotes_not_escaped:
  "read_text example_world ''a\"\"\"b.py'' = Inr [] \<and>
   ast_parse example_world [] = Inr (Node []) \<and>
   generate_test_file example_world (TestGenerator_init example_config) ''a\"\"\"b.py'' =
     (Inr ''\"\"\"Tests for a\"\"\"b.py\"\"\"\<newline>\<newline>import pytest\<newline>\<newline>'',
      TestGenerator_init example_config)"
  by (simp add: generate_test_file_def example_world_def shapes_source_def walk_def)

end
